theory Spec2Isabelle
  imports Complex_Main
begin

section \<open>Python strings\<close>

text \<open>
  Python \<open>str\<close> values are modelled as \<open>string\<close> (lists of 8-bit characters) and are
  read as ASCII text: \<open>str.lower\<close> maps the letters A..Z to a..z and leaves every other
  character alone, and \<open>str.strip\<close> removes the ASCII characters for which
  \<open>str.isspace\<close> holds.
\<close>

definition lower_char :: "char \<Rightarrow> char" where
  "lower_char c =
     (case map_of (zip ''ABCDEFGHIJKLMNOPQRSTUVWXYZ'' ''abcdefghijklmnopqrstuvwxyz'') c of
        None \<Rightarrow> c
      | Some l \<Rightarrow> l)"

definition lower :: "string \<Rightarrow> string" where
  "lower s = map lower_char s"

text \<open>\<open>s.startswith(p)\<close>.\<close>

fun startswith :: "string \<Rightarrow> string \<Rightarrow> bool" where
  "startswith s [] = True"
| "startswith [] (p # ps) = False"
| "startswith (c # cs) (p # ps) = (c = p \<and> startswith cs ps)"

text \<open>\<open>k in s\<close> on strings: \<open>k\<close> occurs in \<open>s\<close> as a contiguous substring.\<close>

fun py_in :: "string \<Rightarrow> string \<Rightarrow> bool" where
  "py_in k [] = (k = [])"
| "py_in k (c # cs) = (startswith (c # cs) k \<or> py_in k cs)"

text \<open>The mathematical reading of the same test.\<close>

definition substring_of :: "string \<Rightarrow> string \<Rightarrow> bool" where
  "substring_of k s = (\<exists>ps ss. s = ps @ k @ ss)"




section \<open>Exceptions\<close>

text \<open>
  The exceptions the modelled code raises or lets through. \<open>HTTPException n\<close> carries the
  status code; \<open>DatabaseError\<close> stands for any exception of the MySQL connector
  (no connection from the pool, a failing statement).
\<close>

datatype py_exception =
  ValueError | KeyError | DatabaseError | RequestException | EmailError | HTTPException nat

section \<open>AI engine: knowledge-base lookup (app/ai\_engine.py)\<close>











section \<open>AI engine: context retrieval (ai\_engine.py)\<close>






section \<open>AI engine: escalation router (ai\_engine.py)\<close>

definition ESCALATION_KEYWORDS :: "string list" where
  "ESCALATION_KEYWORDS =
     [''error'', ''crash'', ''bug'', ''fail'', ''broken'', ''down'',
      ''payment'', ''billing'', ''charge'', ''deploy'', ''server'',
      ''database'', ''critical'', ''urgent'', ''hack'', ''security'',
      ''not working'', ''doesn'' @ [CHR 0x27] @ ''t work'', ''can'' @ [CHR 0x27] @ ''t access'',
      ''unable to'', ''help me'', ''stuck'', ''problem'', ''issue'', ''trouble'']"

text \<open>
  The confidence is a Python float; it is modelled by the real number it denotes and the
  literal \<open>0.6\<close> by \<open>6/10\<close>.
\<close>

definition needs_human :: "string \<Rightarrow> real \<Rightarrow> bool" where
  "needs_human q conf =
     (let q_lower = lower q;
          has_keywords = list_ex (\<lambda>k. py_in k q_lower) ESCALATION_KEYWORDS;
          is_low_confidence = (conf < 6 / 10)
      in has_keywords \<or> is_low_confidence)"

text \<open>The class-based engine of app/ai\_engine.py has its own keyword set.\<close>

definition AIEngine_ESCALATION_KEYWORDS :: "string list" where
  "AIEngine_ESCALATION_KEYWORDS =
     [''error'', ''crash'', ''bug'', ''fail'', ''broken'', ''down'',
      ''payment'', ''billing'', ''charge'', ''deploy'', ''server'',
      ''database'', ''critical'', ''urgent'', ''hack'', ''security'',
      ''not working'', ''help'', ''emergency'']"

definition needs_escalation :: "string \<Rightarrow> real \<Rightarrow> bool" where
  "needs_escalation query confidence =
     (let query_lower = lower query;
          has_escalation_keyword =
            list_ex (\<lambda>keyword. py_in keyword query_lower) AIEngine_ESCALATION_KEYWORDS;
          is_low_confidence = (confidence < 6 / 10)
      in has_escalation_keyword \<or> is_low_confidence)"


section \<open>Database tables\<close>

text \<open>
  The tables are lists of rows with the columns the queries of the modelled functions
  read and write. Timestamps are integers (seconds). A \<open>NULL\<close> column is \<open>None\<close>.
\<close>

datatype ticket_status = OPEN | IN_PROGRESS | CLOSED

datatype ticket_priority = LOW | MEDIUM | HIGH | CRITICAL

record user =
  u_id :: int
  u_username :: string
  u_password :: string
  u_email :: "string option"
  u_role :: string

record ticket =
  t_id :: int
  t_user_id :: int
  t_query :: string
  t_reply :: "string option"
  t_status :: ticket_status
  t_priority :: ticket_priority
  t_assigned_developer_id :: "int option"
  t_assigned_by :: "int option"
  t_assigned_at :: "int option"
  t_assignment_notes :: "string option"
  t_completed_at :: "int option"
  t_completion_notes :: "string option"
  t_created_at :: int
  t_updated_at :: int

record ticket_assignment =
  ta_id :: int
  ta_ticket_id :: int
  ta_developer_id :: int
  ta_assigned_by :: int
  ta_assigned_at :: int
  ta_is_active :: bool
  ta_notes :: "string option"

record notification =
  n_role :: "string option"
  n_user_id :: "int option"
  n_message :: string
  n_type :: string
  n_created_at :: int

record database =
  users_tbl :: "user list"
  tickets_tbl :: "ticket list"
  ticket_assignments_tbl :: "ticket_assignment list"
  notifications_tbl :: "notification list"

text \<open>
  The database server as a call sees it: its tables, and whether \<open>get_cursor\<close> and
  \<open>cur.execute\<close> succeed during the call.
\<close>

record server =
  db :: database
  db_available :: bool

section \<open>Ticket visibility engine (ticket\_visibility\_engine.py)\<close>

text \<open>
  A row of the engine's \<open>SELECT\<close>: the columns of the ticket and the names joined in from
  \<open>users\<close> (client \<open>c\<close>, developer \<open>d\<close>, assigner \<open>a\<close>).
\<close>

record ticket_row = ticket +
  client_name :: "string option"
  client_email :: "string option"
  developer_name :: "string option"
  developer_email :: "string option"
  assigned_by_name :: "string option"

text \<open>\<open>LEFT JOIN users x ON key = x.id\<close>: every matching user, or one \<open>NULL\<close> row.\<close>

definition left_join_user :: "user list \<Rightarrow> int option \<Rightarrow> user option list" where
  "left_join_user us key =
     (case filter (\<lambda>u. Some (u_id u) = key) us of
        [] \<Rightarrow> [None]
      | m # ms \<Rightarrow> map Some (m # ms))"

definition joined_row ::
  "ticket \<Rightarrow> user option \<Rightarrow> user option \<Rightarrow> user option \<Rightarrow> ticket_row" where
  "joined_row t c d a =
     \<lparr>t_id = t_id t, t_user_id = t_user_id t, t_query = t_query t, t_reply = t_reply t,
      t_status = t_status t, t_priority = t_priority t,
      t_assigned_developer_id = t_assigned_developer_id t, t_assigned_by = t_assigned_by t,
      t_assigned_at = t_assigned_at t, t_assignment_notes = t_assignment_notes t,
      t_completed_at = t_completed_at t, t_completion_notes = t_completion_notes t,
      t_created_at = t_created_at t, t_updated_at = t_updated_at t,
      client_name = map_option u_username c, client_email = Option.bind c u_email,
      developer_name = map_option u_username d, developer_email = Option.bind d u_email,
      assigned_by_name = map_option u_username a\<rparr>"

text \<open>\<open>base_select\<close>: the tickets with the three joins, before any \<open>WHERE\<close>.\<close>

definition base_select :: "database \<Rightarrow> ticket_row list" where
  "base_select d =
     concat (map (\<lambda>t.
       [joined_row t c dv a.
          c \<leftarrow> left_join_user (users_tbl d) (Some (t_user_id t)),
          dv \<leftarrow> left_join_user (users_tbl d) (t_assigned_developer_id t),
          a \<leftarrow> left_join_user (users_tbl d) (t_assigned_by t)]) (tickets_tbl d))"

text \<open>
  The conditions the engine writes into the \<open>WHERE\<close> clause, with their bound
  parameters. The clause is the conjunction of a list of them.
\<close>

datatype condition =
    UserIdEq int                        \<comment> \<open>\<open>t.user_id = %s\<close>\<close>
  | StatusIn "ticket_status list"       \<comment> \<open>\<open>t.status IN (...)\<close>\<close>
  | StatusEq ticket_status              \<comment> \<open>\<open>t.status = %s\<close>\<close>
  | PriorityIn "ticket_priority list"   \<comment> \<open>\<open>t.priority IN (...)\<close>\<close>
  | PriorityEq ticket_priority          \<comment> \<open>\<open>t.priority = %s\<close>\<close>
  | AssignedIsNull                      \<comment> \<open>\<open>t.assigned_developer_id IS NULL\<close>\<close>
  | AssignedIn "int list"               \<comment> \<open>\<open>t.assigned_developer_id IN (...)\<close>\<close>
  | AssignedEq int                      \<comment> \<open>\<open>t.assigned_developer_id = %s\<close>\<close>
  | SearchLike string                   \<comment> \<open>\<open>(t.query LIKE %s OR c.username LIKE %s)\<close>\<close>
  | CreatedGe int                       \<comment> \<open>\<open>t.created_at >= %s\<close>\<close>
  | CreatedLe int                       \<comment> \<open>\<open>t.created_at <= %s\<close>\<close>
  | AlwaysTrue                          \<comment> \<open>\<open>1=1\<close>\<close>
  | AlwaysFalse                         \<comment> \<open>\<open>1=0\<close>\<close>

text \<open>
  Whether a row satisfies a condition. \<open>LIKE\<close> is evaluated by the database server under
  the collation of the column, which the repository does not fix: \<open>like s pat\<close> is a
  parameter of the model. A comparison with \<open>NULL\<close> does not hold.
\<close>

fun holds :: "(string \<Rightarrow> string \<Rightarrow> bool) \<Rightarrow> ticket_row \<Rightarrow> condition \<Rightarrow> bool" where
  "holds like r (UserIdEq uid) = (t_user_id r = uid)"
| "holds like r (StatusIn ss) = (t_status r \<in> set ss)"
| "holds like r (StatusEq s) = (t_status r = s)"
| "holds like r (PriorityIn ps) = (t_priority r \<in> set ps)"
| "holds like r (PriorityEq p) = (t_priority r = p)"
| "holds like r AssignedIsNull = (t_assigned_developer_id r = None)"
| "holds like r (AssignedIn ids) =
     (case t_assigned_developer_id r of None \<Rightarrow> False | Some i \<Rightarrow> i \<in> set ids)"
| "holds like r (AssignedEq i) = (t_assigned_developer_id r = Some i)"
| "holds like r (SearchLike pat) =
     (like (t_query r) pat \<or> (case client_name r of None \<Rightarrow> False | Some n \<Rightarrow> like n pat))"
| "holds like r (CreatedGe ts) = (ts \<le> t_created_at r)"
| "holds like r (CreatedLe ts) = (t_created_at r \<le> ts)"
| "holds like r AlwaysTrue = True"
| "holds like r AlwaysFalse = False"

text \<open>
  \<open>cur.execute(base_query, params); cur.fetchall()\<close> for the finished query: the rows of
  \<open>base_select\<close> that satisfy every condition, \<open>ORDER BY t.created_at DESC LIMIT 1000\<close>.
  Rows with equal \<open>created_at\<close> keep their table order here; the server may return them in
  any order.
\<close>

definition execute_ticket_query ::
  "(string \<Rightarrow> string \<Rightarrow> bool) \<Rightarrow> server \<Rightarrow> condition list \<Rightarrow> py_exception + ticket_row list" where
  "execute_ticket_query like srv conds =
     (if db_available srv
      then Inr (take 1000 (sort_key (\<lambda>r. - t_created_at r)
                  (filter (\<lambda>r. list_all (holds like r) conds) (base_select (db srv)))))
      else Inl DatabaseError)"

text \<open>The keys of \<open>self.visibility_rules\<close>.\<close>

definition visibility_rules :: "string list" where
  "visibility_rules = [''client'', ''developer'', ''project_manager'', ''admin'']"

definition build_base_query :: "int \<Rightarrow> string \<Rightarrow> condition" where
  "build_base_query user_id user_role =
     (if user_role = ''client'' then UserIdEq user_id
      else if user_role = ''developer'' then StatusIn [OPEN, IN_PROGRESS]
      else if user_role = ''project_manager'' then StatusIn [OPEN, IN_PROGRESS]
      else if user_role = ''admin'' then AlwaysTrue
      else AlwaysFalse)"

text \<open>
  The optional \<open>filters\<close> dictionary. A key that is absent is \<open>None\<close>; a value is a single
  item or a list, as the code distinguishes with \<open>isinstance(..., list)\<close>.
\<close>

datatype 'a scalar_or_list = Scalar 'a | ListOf "'a list"

datatype assigned_to_value = AssignedScalar int | AssignedList "int option list"

record date_range =
  dr_start :: "int option"
  dr_end :: "int option"

record filters =
  f_status :: "ticket_status scalar_or_list option"
  f_priority :: "ticket_priority scalar_or_list option"
  f_assigned_to :: "assigned_to_value option"
  f_search_query :: "string option"
  f_date_range :: "date_range option"

text \<open>
  \<open>_build_filter_clause\<close>: the list \<open>clauses\<close>. An empty list, an empty search string and
  an empty date range are falsy and add nothing.
\<close>

definition build_filter_clause :: "filters \<Rightarrow> condition list" where
  "build_filter_clause fs =
     (case f_status fs of
        Some (ListOf (s # ss)) \<Rightarrow> [StatusIn (s # ss)]
      | Some (Scalar s) \<Rightarrow> [StatusEq s]
      | _ \<Rightarrow> [])
     @ (case f_priority fs of
        Some (ListOf (p # ps)) \<Rightarrow> [PriorityIn (p # ps)]
      | Some (Scalar p) \<Rightarrow> [PriorityEq p]
      | _ \<Rightarrow> [])
     @ (case f_assigned_to fs of
        None \<Rightarrow> []
      | Some (AssignedList assigned_to) \<Rightarrow>
          if assigned_to = [None] then [AssignedIsNull]
          else (let valid_ids = [i. Some i \<leftarrow> assigned_to]
                in if valid_ids \<noteq> [] then [AssignedIn valid_ids] else [])
      | Some (AssignedScalar i) \<Rightarrow> [AssignedEq i])
     @ (case f_search_query fs of
        None \<Rightarrow> []
      | Some q \<Rightarrow> if q \<noteq> [] then [SearchLike (''%'' @ q @ ''%'')] else [])
     @ (case f_date_range fs of
        None \<Rightarrow> []
      | Some dr \<Rightarrow>
          (case dr_start dr of None \<Rightarrow> [] | Some ts \<Rightarrow> [CreatedGe ts])
          @ (case dr_end dr of None \<Rightarrow> [] | Some ts \<Rightarrow> [CreatedLe ts]))"

text \<open>The replacement of internal notes, done in place on each fetched row.\<close>

definition hide_internal_notes :: "ticket_row \<Rightarrow> ticket_row" where
  "hide_internal_notes ticket =
     (case t_assignment_notes ticket of
        None \<Rightarrow> ticket
      | Some notes \<Rightarrow>
          if notes \<noteq> [] \<and> py_in ''INTERNAL:'' notes
          then ticket\<lparr>t_assignment_notes := Some ''[Internal notes hidden]''\<rparr>
          else ticket)"

definition apply_role_based_filtering ::
  "ticket_row list \<Rightarrow> string \<Rightarrow> int \<Rightarrow> ticket_row list" where
  "apply_role_based_filtering tickets user_role user_id =
     (if user_role = ''client''
      then filter (\<lambda>ticket. t_user_id ticket = user_id) tickets
      else if user_role \<in> set [''developer'', ''project_manager'', ''admin'']
      then (if user_role \<noteq> ''admin'' then map hide_internal_notes tickets else tickets)
      else [])"

text \<open>
  The body of the \<open>try\<close> block of \<open>get_visible_tickets\<close>: a raised exception is \<open>Inl\<close>.
  A user id of 0 and an empty role string are the falsy inputs.
\<close>

definition get_visible_tickets_try ::
  "(string \<Rightarrow> string \<Rightarrow> bool) \<Rightarrow> server \<Rightarrow> int \<Rightarrow> string \<Rightarrow> filters option
     \<Rightarrow> py_exception + ticket_row list" where
  "get_visible_tickets_try like srv user_id user_role fs =
     (if user_id = 0 \<or> user_role = [] then Inl ValueError
      else if user_role \<notin> set visibility_rules then Inr []
      else
        (let base_query = [build_base_query user_id user_role];
             query = (case fs of
                        None \<Rightarrow> base_query
                      | Some f \<Rightarrow> base_query @ build_filter_clause f)
         in case execute_ticket_query like srv query of
              Inl e \<Rightarrow> Inl e
            | Inr tickets \<Rightarrow> Inr (apply_role_based_filtering tickets user_role user_id)))"

text \<open>\<open>except Exception: return []\<close>; the \<open>finally\<close> block swallows its own errors.\<close>

definition get_visible_tickets ::
  "(string \<Rightarrow> string \<Rightarrow> bool) \<Rightarrow> server \<Rightarrow> int \<Rightarrow> string \<Rightarrow> filters option
     \<Rightarrow> ticket_row list" where
  "get_visible_tickets like srv user_id user_role fs =
     (case get_visible_tickets_try like srv user_id user_role fs of
        Inl e \<Rightarrow> []
      | Inr tickets \<Rightarrow> tickets)"

definition check_role_based_access :: "ticket \<Rightarrow> int \<Rightarrow> string \<Rightarrow> string \<Rightarrow> bool" where
  "check_role_based_access ticket user_id user_role action =
     (if user_role = ''client'' then t_user_id ticket = user_id
      else if user_role = ''developer'' then
        (if action = ''view'' then t_status ticket \<in> set [OPEN, IN_PROGRESS]
         else if action = ''assign''
         then t_status ticket = OPEN
              \<and> (t_assigned_developer_id ticket = None \<or> t_assigned_developer_id ticket = Some 0)
         else if action \<in> set [''complete'', ''update'', ''pass'', ''cancel'']
         then t_assigned_developer_id ticket = Some user_id
         else False)
      else if user_role = ''project_manager'' then
        (if action = ''view'' then t_status ticket \<in> set [OPEN, IN_PROGRESS]
         else if action = ''assign'' then t_status ticket = OPEN
         else if action \<in> set [''complete'', ''update''] then False
         else False)
      else if user_role = ''admin'' then True
      else False)"

text \<open>
  The \<open>try\<close> block of \<open>check_ticket_access\<close>. Its query selects the ticket with the given
  id; the two \<open>LEFT JOIN\<close>s drop no ticket and the joined names are not read, so the row
  is the ticket. \<open>fetchone\<close> takes the first row.
\<close>

definition check_ticket_access_try ::
  "server \<Rightarrow> int \<Rightarrow> int \<Rightarrow> string \<Rightarrow> string \<Rightarrow> py_exception + bool" where
  "check_ticket_access_try srv user_id ticket_id user_role action =
     (if user_id = 0 \<or> ticket_id = 0 \<or> user_role = [] then Inr False
      else if user_role \<notin> set visibility_rules then Inr False
      else if \<not> db_available srv then Inl DatabaseError
      else (case filter (\<lambda>t. t_id t = ticket_id) (tickets_tbl (db srv)) of
              [] \<Rightarrow> Inr False
            | ticket # _ \<Rightarrow> Inr (check_role_based_access ticket user_id user_role action)))"

definition check_ticket_access :: "server \<Rightarrow> int \<Rightarrow> int \<Rightarrow> string \<Rightarrow> string \<Rightarrow> bool" where
  "check_ticket_access srv user_id ticket_id user_role action =
     (case check_ticket_access_try srv user_id ticket_id user_role action of
        Inl e \<Rightarrow> False
      | Inr allowed \<Rightarrow> allowed)"

section \<open>Login (database.py, main.py)\<close>

text \<open>
  \<open>authenticate_user\<close> runs
  \<open>SELECT id, role FROM users WHERE username=%s AND password=%s\<close> and returns
  \<open>fetchone()\<close>: the first matching row as a dictionary, or \<open>None\<close>. The stored password
  is compared with the supplied one as it is. String equality in the \<open>WHERE\<close> clause is
  decided by the server under the collation of the column; \<open>eq\<close> is that comparison.
  An exception of the connector leaves the function through its \<open>finally\<close>.
\<close>

record auth_row =
  row_id :: int
  row_role :: string

definition authenticate_user ::
  "(string \<Rightarrow> string \<Rightarrow> bool) \<Rightarrow> server \<Rightarrow> string \<Rightarrow> string
     \<Rightarrow> py_exception + auth_row option" where
  "authenticate_user eq srv username password =
     (if \<not> db_available srv then Inl DatabaseError
      else Inr (case filter (\<lambda>u. eq (u_username u) username \<and> eq (u_password u) password)
                       (users_tbl (db srv)) of
                  [] \<Rightarrow> None
                | u # _ \<Rightarrow> Some \<lparr>row_id = u_id u, row_role = u_role u\<rparr>))"

text \<open>
  \<open>jwt.encode(payload, JWT_SECRET, algorithm=JWT_ALGO)\<close>: the token is modelled by what
  it is made from, the payload and the key and algorithm that sign it.
\<close>

record jwt_payload =
  jwt_id :: int
  jwt_role :: string
  jwt_iat :: int

record jwt =
  jwt_claims :: jwt_payload
  jwt_signed_with :: string
  jwt_algorithm :: string

definition jwt_encode :: "jwt_payload \<Rightarrow> string \<Rightarrow> string \<Rightarrow> jwt" where
  "jwt_encode pl key alg = \<lparr>jwt_claims = pl, jwt_signed_with = key, jwt_algorithm = alg\<rparr>"

definition JWT_ALGO :: string where
  "JWT_ALGO = ''HS256''"

record login_response =
  resp_token :: jwt
  resp_role :: string
  resp_username :: string

text \<open>
  The \<open>/login\<close> endpoint; \<open>jwt_secret\<close> is the value of \<open>JWT_SECRET\<close> and \<open>now\<close> the
  clock. The two \<open>AuditService.log_login_attempt\<close> calls sit in \<open>try\<close> blocks with a bare
  \<open>except: pass\<close> and change nothing the endpoint returns.
\<close>

definition login ::
  "(string \<Rightarrow> string \<Rightarrow> bool) \<Rightarrow> string \<Rightarrow> int \<Rightarrow> server \<Rightarrow> string \<Rightarrow> string
     \<Rightarrow> py_exception + login_response" where
  "login eq jwt_secret now srv username password =
     (case authenticate_user eq srv username password of
        Inl e \<Rightarrow> Inl (HTTPException 503)
      | Inr None \<Rightarrow> Inl (HTTPException 401)
      | Inr (Some user) \<Rightarrow>
          Inr \<lparr>resp_token =
                 jwt_encode \<lparr>jwt_id = row_id user, jwt_role = row_role user, jwt_iat = now\<rparr>
                   jwt_secret JWT_ALGO,
               resp_role = row_role user,
               resp_username = username\<rparr>)"

section \<open>Telegram notifier (notifier.py)\<close>

text \<open>
  \<open>bot_token\<close> and \<open>chat_id\<close> are the two environment variables (\<open>None\<close> when unset);
  \<open>post\<close> is the outcome of \<open>requests.post\<close>, \<open>Inl\<close> when it raises. Only
  \<open>requests.RequestException\<close> is caught.
\<close>

definition notify_admin ::
  "string option \<Rightarrow> string option \<Rightarrow> py_exception + unit \<Rightarrow> string \<Rightarrow> py_exception + unit" where
  "notify_admin bot_token chat_id post message =
     (if bot_token = None \<or> bot_token = Some [] \<or> chat_id = None \<or> chat_id = Some []
      then Inr ()
      else (case post of
              Inl RequestException \<Rightarrow> Inr ()
            | Inl e \<Rightarrow> Inl e
            | Inr _ \<Rightarrow> Inr ()))"

section \<open>Ticket endpoints (main.py)\<close>

text \<open>
  An endpoint takes the tables and returns its response, or the exception that leaves
  it, together with the tables as its statements left them: the connection runs with
  \<open>autocommit\<close>, so every executed statement is committed when it runs. The endpoints are
  modelled for a reachable database (no connector exception).
\<close>

record current_user =
  cu_id :: int
  cu_role :: string

record api_response =
  r_status :: string
  r_message :: string

type_synonym 'a outcome = "(py_exception + 'a) \<times> database"

text \<open>The \<open>role_required\<close> decorator of rbac\_middleware.py.\<close>

definition role_required ::
  "string list \<Rightarrow> current_user \<Rightarrow> database \<Rightarrow> 'a outcome \<Rightarrow> 'a outcome" where
  "role_required allowed_roles user d body =
     (if cu_role user \<notin> set allowed_roles then (Inl (HTTPException 403), d) else body)"

text \<open>\<open>str(n)\<close> for the integers that f-strings format.\<close>

definition digit_char :: "nat \<Rightarrow> char" where
  "digit_char n = ''0123456789'' ! n"

function str_nat :: "nat \<Rightarrow> string" where
  "str_nat n = (if n < 10 then [digit_char n] else str_nat (n div 10) @ [digit_char (n mod 10)])"
  by pat_completeness auto
termination
  by (relation "measure (\<lambda>n. n)") auto

definition str_int :: "int \<Rightarrow> string" where
  "str_int i = (if i < 0 then ''-'' @ str_nat (nat (- i)) else str_nat (nat i))"

text \<open>The next \<open>AUTO_INCREMENT\<close> value of a table whose ids are \<open>ids\<close>.\<close>

definition next_id :: "int list \<Rightarrow> int" where
  "next_id ids = 1 + fold max ids 0"

text \<open>\<open>UPDATE tickets SET ... WHERE id = %s\<close> with the assignment \<open>f\<close>.\<close>

definition update_ticket :: "int \<Rightarrow> (ticket \<Rightarrow> ticket) \<Rightarrow> database \<Rightarrow> database" where
  "update_ticket ticket_id f d =
     d\<lparr>tickets_tbl := map (\<lambda>t. if t_id t = ticket_id then f t else t) (tickets_tbl d)\<rparr>"

text \<open>
  \<open>INSERT INTO ticket_assignments (ticket_id, developer_id, assigned_by, assigned_at,
  is_active, notes) VALUES (%s, %s, %s, NOW(), TRUE, %s)\<close>.
\<close>

definition insert_assignment ::
  "int \<Rightarrow> int \<Rightarrow> int \<Rightarrow> int \<Rightarrow> string option \<Rightarrow> database \<Rightarrow> database" where
  "insert_assignment now ticket_id developer_id assigned_by notes d =
     d\<lparr>ticket_assignments_tbl := ticket_assignments_tbl d @
         [\<lparr>ta_id = next_id (map ta_id (ticket_assignments_tbl d)),
           ta_ticket_id = ticket_id, ta_developer_id = developer_id,
           ta_assigned_by = assigned_by, ta_assigned_at = now,
           ta_is_active = True, ta_notes = notes\<rparr>]\<rparr>"

text \<open>\<open>UPDATE ticket_assignments SET is_active = FALSE WHERE ticket_id = %s\<close>.\<close>

definition deactivate_assignments :: "int \<Rightarrow> database \<Rightarrow> database" where
  "deactivate_assignments ticket_id d =
     d\<lparr>ticket_assignments_tbl :=
         map (\<lambda>a. if ta_ticket_id a = ticket_id then a\<lparr>ta_is_active := False\<rparr> else a)
           (ticket_assignments_tbl d)\<rparr>"




text \<open>The active assignments of a ticket (\<open>ta.ticket_id = %s AND ta.is_active = TRUE\<close>).\<close>

definition active_assignments :: "database \<Rightarrow> int \<Rightarrow> ticket_assignment list" where
  "active_assignments d ticket_id =
     filter (\<lambda>a. ta_ticket_id a = ticket_id \<and> ta_is_active a) (ticket_assignments_tbl d)"


text \<open>The rows of \<open>ta.ticket_id = %s AND ta.developer_id = %s AND ta.is_active = TRUE\<close>.\<close>

definition my_active_assignments :: "database \<Rightarrow> int \<Rightarrow> int \<Rightarrow> ticket_assignment list" where
  "my_active_assignments d ticket_id developer_id =
     filter (\<lambda>a. ta_ticket_id a = ticket_id \<and> ta_developer_id a = developer_id \<and> ta_is_active a)
       (ticket_assignments_tbl d)"


text \<open>
  Rows fetched through the pool's cursors are dictionaries keyed by column name
  (\<open>conn.cursor(dictionary=True)\<close> in \<open>get_cursor\<close>). \<open>row[k]\<close> raises \<open>KeyError\<close> for a key
  the dictionary does not have; an integer is never one of its keys.
\<close>

datatype dict_key = StrKey string | IntKey int

datatype sql_value = SqlInt int | SqlStr string | SqlNull

type_synonym dict_row = "(dict_key \<times> sql_value) list"

definition getitem :: "dict_row \<Rightarrow> dict_key \<Rightarrow> py_exception + sql_value" where
  "getitem row k = (case map_of row k of None \<Rightarrow> Inl KeyError | Some v \<Rightarrow> Inr v)"

text \<open>The comprehension \<open>[row[k] for row in rows]\<close>.\<close>

fun getitem_each :: "dict_row list \<Rightarrow> dict_key \<Rightarrow> py_exception + sql_value list" where
  "getitem_each [] k = Inr []"
| "getitem_each (row # rows) k =
     (case getitem row k of
        Inl e \<Rightarrow> Inl e
      | Inr v \<Rightarrow> (case getitem_each rows k of Inl e \<Rightarrow> Inl e | Inr vs \<Rightarrow> Inr (v # vs)))"

definition sql_str :: "string option \<Rightarrow> sql_value" where
  "sql_str v = (case v of None \<Rightarrow> SqlNull | Some s \<Rightarrow> SqlStr s)"

text \<open>Python truthiness of a fetched value.\<close>

fun truthy :: "sql_value \<Rightarrow> bool" where
  "truthy (SqlInt i) = (i \<noteq> 0)"
| "truthy (SqlStr s) = (s \<noteq> [])"
| "truthy SqlNull = False"

definition insert_notifications :: "notification list \<Rightarrow> database \<Rightarrow> database" where
  "insert_notifications ns d = d\<lparr>notifications_tbl := notifications_tbl d @ ns\<rparr>"

text \<open>
  \<open>pass_ticket\<close>. \<open>send\<close> is the outcome of the call of
  \<open>send_ticket_passed_email_to_admins\<close> (\<open>Inl\<close> when it raises). The \<open>try\<close> block around
  the call evaluates \<open>assignment_info[1]\<close> first; whatever the block raises is printed
  and dropped.
\<close>

definition pass_ticket ::
  "int \<Rightarrow> py_exception + bool \<Rightarrow> database \<Rightarrow> current_user \<Rightarrow> int \<Rightarrow> string
     \<Rightarrow> api_response outcome" where
  "pass_ticket now send d user ticket_id reason =
     role_required [''developer''] user d
       (case [[(StrKey ''id'', SqlInt (ta_id a)),
               (StrKey ''developer_name'', SqlStr (u_username u)),
               (StrKey ''developer_email'', sql_str (u_email u))].
                a \<leftarrow> my_active_assignments d ticket_id (cu_id user),
                u \<leftarrow> filter (\<lambda>u. ta_developer_id a = u_id u) (users_tbl d)] of
          [] \<Rightarrow> (Inl (HTTPException 403), d)
        | assignment_info # _ \<Rightarrow>
            (let d1 = d\<lparr>ticket_assignments_tbl :=
                         map (\<lambda>a. if ta_ticket_id a = ticket_id \<and> ta_developer_id a = cu_id user
                                     \<and> ta_is_active a
                                  then a\<lparr>ta_is_active := False,
                                         ta_notes := Some (''Passed by developer: '' @ reason)\<rparr>
                                  else a)
                           (ticket_assignments_tbl d)\<rparr>;
                 d2 = update_ticket ticket_id (\<lambda>t. t\<lparr>t_status := OPEN\<rparr>) d1;
                 msg = ''Ticket '' @ str_int ticket_id @ '' passed back by developer: '' @ reason;
                 d3 = insert_notifications
                        [\<lparr>n_role = Some ''admin'', n_user_id = None, n_message = msg,
                          n_type = ''ticket_passed'', n_created_at = now\<rparr>,
                         \<lparr>n_role = Some ''project_manager'', n_user_id = None, n_message = msg,
                          n_type = ''ticket_passed'', n_created_at = now\<rparr>] d2;
                 rows = [[(StrKey ''email'', sql_str (u_email u))].
                           u \<leftarrow> users_tbl d3,
                           u_role u \<in> set [''admin'', ''project_manager''],
                           u_email u \<noteq> None \<and> u_email u \<noteq> Some []]
             in case getitem_each rows (IntKey 0) of
                  Inl e \<Rightarrow> (Inl e, d3)
                | Inr admin_emails \<Rightarrow>
                    (let attempt =
                           (if admin_emails \<noteq> []
                            then (case getitem assignment_info (IntKey 1) of
                                    Inl e \<Rightarrow> Inl e
                                  | Inr name \<Rightarrow> send)
                            else Inr True)
                     in (case attempt of
                           Inl e \<Rightarrow> Inr \<lparr>r_status = ''success'',
                                          r_message = ''Ticket passed successfully''\<rparr>
                         | Inr _ \<Rightarrow> Inr \<lparr>r_status = ''success'',
                                          r_message = ''Ticket passed successfully''\<rparr>,
                         d3))))"

text \<open>The integer a fetched value binds as a statement parameter (\<open>NULL\<close> for the rest).\<close>

fun sql_int_option :: "sql_value \<Rightarrow> int option" where
  "sql_int_option (SqlInt i) = Some i"
| "sql_int_option v = None"

text \<open>
  \<open>cancel_ticket\<close>. \<open>send\<close> is the outcome of the call of
  \<open>send_ticket_cancelled_email_to_client\<close>. The parameter tuple of the first
  \<open>INSERT INTO notifications\<close> evaluates \<open>ticket_info[1]\<close> outside any \<open>try\<close> block, after
  the \<open>UPDATE\<close> of the ticket has run.
\<close>

definition cancel_ticket ::
  "int \<Rightarrow> py_exception + bool \<Rightarrow> database \<Rightarrow> current_user \<Rightarrow> int \<Rightarrow> string
     \<Rightarrow> api_response outcome" where
  "cancel_ticket now send d user ticket_id reason =
     role_required [''developer''] user d
       (case [[(StrKey ''id'', SqlInt (ta_id a)),
               (StrKey ''user_id'', SqlInt (t_user_id t)),
               (StrKey ''client_name'', SqlStr (u_username c)),
               (StrKey ''client_email'', sql_str (u_email c)),
               (StrKey ''developer_name'', SqlStr (u_username dv)),
               (StrKey ''developer_email'', sql_str (u_email dv))].
                a \<leftarrow> my_active_assignments d ticket_id (cu_id user),
                t \<leftarrow> filter (\<lambda>t. ta_ticket_id a = t_id t) (tickets_tbl d),
                c \<leftarrow> filter (\<lambda>c. t_user_id t = u_id c) (users_tbl d),
                dv \<leftarrow> filter (\<lambda>dv. ta_developer_id a = u_id dv) (users_tbl d)] of
          [] \<Rightarrow> (Inl (HTTPException 403), d)
        | ticket_info # _ \<Rightarrow>
            (let d1 = update_ticket ticket_id
                        (\<lambda>t. t\<lparr>t_status := CLOSED,
                               t_reply := Some (''Ticket canceled by developer: '' @ reason),
                               t_updated_at := now\<rparr>) d
             in case getitem ticket_info (IntKey 1) of
                  Inl e \<Rightarrow> (Inl e, d1)
                | Inr client_id \<Rightarrow>
                    (let d2 = insert_notifications
                                [\<lparr>n_role = None, n_user_id = sql_int_option client_id,
                                  n_message = ''Your ticket '' @ str_int ticket_id
                                              @ '' was cancelled: '' @ reason,
                                  n_type = ''ticket_cancelled'', n_created_at = now\<rparr>] d1;
                         msg = ''Ticket '' @ str_int ticket_id
                               @ '' cancelled by developer: '' @ reason;
                         d3 = insert_notifications
                                [\<lparr>n_role = Some ''admin'', n_user_id = None, n_message = msg,
                                  n_type = ''ticket_cancelled'', n_created_at = now\<rparr>,
                                 \<lparr>n_role = Some ''project_manager'', n_user_id = None,
                                  n_message = msg, n_type = ''ticket_cancelled'',
                                  n_created_at = now\<rparr>] d2
                     in case getitem ticket_info (IntKey 3) of
                          Inl e \<Rightarrow> (Inl e, d3)
                        | Inr email \<Rightarrow>
                            (let attempt =
                                   (if truthy email
                                    then (case getitem ticket_info (IntKey 2) of
                                            Inl e \<Rightarrow> Inl e
                                          | Inr name \<Rightarrow>
                                              (case getitem ticket_info (IntKey 4) of
                                                 Inl e \<Rightarrow> Inl e
                                               | Inr dev_name \<Rightarrow> send))
                                    else Inr True)
                             in (case attempt of
                                   Inl e \<Rightarrow> Inr \<lparr>r_status = ''success'',
                                                  r_message = ''Ticket canceled successfully''\<rparr>
                                 | Inr _ \<Rightarrow> Inr \<lparr>r_status = ''success'',
                                                  r_message = ''Ticket canceled successfully''\<rparr>,
                                 d3)))))"

text \<open>The request's status string as a value of the \<open>status\<close> column.\<close>

definition parse_status :: "string \<Rightarrow> ticket_status option" where
  "parse_status s =
     (if s = ''OPEN'' then Some OPEN
      else if s = ''IN_PROGRESS'' then Some IN_PROGRESS
      else if s = ''CLOSED'' then Some CLOSED
      else None)"



section \<open>Sequences of ticket operations\<close>









section \<open>Overlapping self-assign requests\<close>

text \<open>
  Each handler takes its own connection from the pool and every statement is committed
  when it runs; main.py and database.py open no transaction and take no lock. A request
  is a sequence of separate statements, and the statements of two requests can
  alternate.
\<close>





section \<open>Example data\<close>






definition example_users :: "user list" where
  "example_users =
     [\<lparr>u_id = 1, u_username = ''root'', u_password = ''admin123'',
        u_email = Some ''root@example.org'', u_role = ''admin''\<rparr>,
      \<lparr>u_id = 2, u_username = ''dev'', u_password = ''dev123'',
        u_email = Some ''dev@example.org'', u_role = ''developer''\<rparr>,
      \<lparr>u_id = 3, u_username = ''alice'', u_password = ''wonder'',
        u_email = Some ''alice@example.org'', u_role = ''client''\<rparr>,
      \<lparr>u_id = 4, u_username = ''bob'', u_password = ''builder'',
        u_email = None, u_role = ''client''\<rparr>]"

definition example_tickets :: "ticket list" where
  "example_tickets =
     [\<lparr>t_id = 1, t_user_id = 3, t_query = ''Printer offline'', t_reply = None,
        t_status = OPEN, t_priority = MEDIUM, t_assigned_developer_id = None,
        t_assigned_by = None, t_assigned_at = None, t_assignment_notes = None,
        t_completed_at = None, t_completion_notes = None,
        t_created_at = 100, t_updated_at = 100\<rparr>,
      \<lparr>t_id = 2, t_user_id = 4, t_query = ''VPN down'', t_reply = None,
        t_status = IN_PROGRESS, t_priority = HIGH, t_assigned_developer_id = Some 2,
        t_assigned_by = Some 1, t_assigned_at = Some 310,
        t_assignment_notes = Some ''INTERNAL: escalate'',
        t_completed_at = None, t_completion_notes = None,
        t_created_at = 300, t_updated_at = 310\<rparr>,
      \<lparr>t_id = 3, t_user_id = 3, t_query = ''Mail bounces'', t_reply = Some ''Fixed'',
        t_status = CLOSED, t_priority = LOW, t_assigned_developer_id = Some 2,
        t_assigned_by = Some 1, t_assigned_at = Some 210, t_assignment_notes = Some ''see log'',
        t_completed_at = Some 250, t_completion_notes = Some ''Fixed'',
        t_created_at = 200, t_updated_at = 250\<rparr>]"

definition example_assignments :: "ticket_assignment list" where
  "example_assignments =
     [\<lparr>ta_id = 1, ta_ticket_id = 3, ta_developer_id = 2, ta_assigned_by = 1,
        ta_assigned_at = 210, ta_is_active = True, ta_notes = None\<rparr>,
      \<lparr>ta_id = 2, ta_ticket_id = 2, ta_developer_id = 2, ta_assigned_by = 1,
        ta_assigned_at = 310, ta_is_active = True, ta_notes = Some ''INTERNAL: escalate''\<rparr>]"

definition example_db :: database where
  "example_db = \<lparr>users_tbl = example_users, tickets_tbl = example_tickets,
                  ticket_assignments_tbl = example_assignments, notifications_tbl = []\<rparr>"

definition example_server :: server where
  "example_server = \<lparr>db = example_db, db_available = True\<rparr>"

definition failing_server :: server where
  "failing_server = \<lparr>db = example_db, db_available = False\<rparr>"

definition example_admin :: current_user where
  "example_admin = \<lparr>cu_id = 1, cu_role = ''admin''\<rparr>"

definition example_developer :: current_user where
  "example_developer = \<lparr>cu_id = 2, cu_role = ''developer''\<rparr>"

definition example_client :: current_user where
  "example_client = \<lparr>cu_id = 3, cu_role = ''client''\<rparr>"

definition users_only_db :: database where
  "users_only_db = \<lparr>users_tbl = example_users, tickets_tbl = [],
                     ticket_assignments_tbl = [], notifications_tbl = []\<rparr>"




text \<open>A sample \<open>LIKE\<close>: the pattern without its \<open>%\<close> signs occurs in the string.\<close>

definition like_contains :: "string \<Rightarrow> string \<Rightarrow> bool" where
  "like_contains s pat = py_in (filter (\<lambda>c. c \<noteq> CHR ''%'') pat) s"

section \<open>Facts about strings\<close>

lemma startswith_iff: "startswith s p \<longleftrightarrow> (\<exists>ss. s = p @ ss)"
  by (induction s p rule: startswith.induct) auto

lemma py_in_iff: "py_in k s \<longleftrightarrow> substring_of k s"
proof (induction s)
  case Nil
  show ?case by (auto simp: substring_of_def)
next
  case (Cons c cs)
  have "substring_of k (c # cs) \<longleftrightarrow> (\<exists>ss. c # cs = k @ ss) \<or> substring_of k cs"
  proof
    assume "substring_of k (c # cs)"
    then obtain ps ss where eq: "c # cs = ps @ k @ ss"
      by (auto simp: substring_of_def)
    show "(\<exists>ss. c # cs = k @ ss) \<or> substring_of k cs"
    proof (cases ps)
      case Nil
      with eq show ?thesis by auto
    next
      case (Cons p ps')
      with eq have "cs = ps' @ k @ ss" by simp
      then show ?thesis by (auto simp: substring_of_def)
    qed
  next
    assume "(\<exists>ss. c # cs = k @ ss) \<or> substring_of k cs"
    then show "substring_of k (c # cs)"
    proof
      assume "\<exists>ss. c # cs = k @ ss"
      then obtain ss where "c # cs = [] @ k @ ss" by auto
      then show ?thesis unfolding substring_of_def by blast
    next
      assume "substring_of k cs"
      then obtain ps ss where "cs = ps @ k @ ss" by (auto simp: substring_of_def)
      then have "c # cs = (c # ps) @ k @ ss" by simp
      then show ?thesis unfolding substring_of_def by blast
    qed
  qed
  with Cons show ?case by (simp add: startswith_iff)
qed



section \<open>The knowledge-base lookup returns a best-scoring entry\<close>

















section \<open>The escalation router\<close>

text \<open>
  C4: \<open>needs_human q conf\<close> is true exactly when one of the escalation keywords is a
  substring of the lowercased query or the confidence is below 0.6; the class-based
  \<open>needs_escalation\<close> decides the same way over its own keyword set.
\<close>

theorem needs_human_iff:
  "(needs_human q conf \<longleftrightarrow>
      (\<exists>k\<in>set ESCALATION_KEYWORDS. substring_of k (lower q)) \<or> conf < 6 / 10)
   \<and> (needs_escalation q conf \<longleftrightarrow>
      (\<exists>k\<in>set AIEngine_ESCALATION_KEYWORDS. substring_of k (lower q)) \<or> conf < 6 / 10)"
  by (simp add: needs_human_def needs_escalation_def list_ex_iff py_in_iff)

theorem needs_human_iff_witness:
  "needs_human ''The server is DOWN'' (9 / 10)
   \<and> \<not> needs_human ''Hello there'' (3 / 4)
   \<and> needs_human ''Hello there'' (3 / 10)
   \<and> \<not> ((\<exists>k\<in>set ESCALATION_KEYWORDS. substring_of k (lower ''Hello there''))
          \<or> (3 / 4 :: real) < 6 / 10)"
proof -
  have a: "needs_human ''The server is DOWN'' (9 / 10)"
    by (simp add: needs_human_def ESCALATION_KEYWORDS_def lower_def lower_char_def)
  have b: "\<not> needs_human ''Hello there'' (3 / 4)"
    by (simp add: needs_human_def ESCALATION_KEYWORDS_def lower_def lower_char_def)
  have c: "needs_human ''Hello there'' (3 / 10)"
    by (simp add: needs_human_def ESCALATION_KEYWORDS_def lower_def lower_char_def)
  from needs_human_iff [of "''Hello there''" "3 / 4"] a b c show ?thesis by blast
qed


section \<open>The ticket visibility engine\<close>

lemma hide_internal_notes_fields:
  "t_user_id (hide_internal_notes t) = t_user_id t"
  "t_status (hide_internal_notes t) = t_status t"
  "t_created_at (hide_internal_notes t) = t_created_at t"
  "(hide_internal_notes t)\<lparr>t_assignment_notes := x\<rparr> = t\<lparr>t_assignment_notes := x\<rparr>"
  by (simp_all add: hide_internal_notes_def split: option.splits)

lemma hidden_marker_free: "\<not> py_in ''INTERNAL:'' ''[Internal notes hidden]''"
  by simp

lemma hide_internal_notes_clean:
  "t_assignment_notes (hide_internal_notes t) = Some n \<Longrightarrow> \<not> substring_of ''INTERNAL:'' n"
  unfolding hide_internal_notes_def py_in_iff [symmetric]
  by (auto split: option.splits if_splits)

lemma execute_ticket_query_rows:
  assumes "execute_ticket_query like srv conds = Inr rows"
  shows "length rows \<le> 1000"
    and "sorted_wrt (\<lambda>a b. t_created_at b \<le> t_created_at a) rows"
    and "r \<in> set rows \<Longrightarrow> list_all (holds like r) conds"
    and "r \<in> set rows \<Longrightarrow> r \<in> set (base_select (db srv))"
proof -
  let ?sel = "filter (\<lambda>r. list_all (holds like r) conds) (base_select (db srv))"
  from assms have rows: "rows = take 1000 (sort_key (\<lambda>r. - t_created_at r) ?sel)"
    by (simp add: execute_ticket_query_def split: if_splits)
  show "length rows \<le> 1000" by (simp add: rows)
  have "sorted (map (\<lambda>r. - t_created_at r) (sort_key (\<lambda>r. - t_created_at r) ?sel))"
    by (rule sorted_sort_key)
  then have "sorted_wrt (\<lambda>a b. t_created_at b \<le> t_created_at a) (sort_key (\<lambda>r. - t_created_at r) ?sel)"
    by (simp add: sorted_map)
  then show "sorted_wrt (\<lambda>a b. t_created_at b \<le> t_created_at a) rows"
    unfolding rows by (rule sorted_wrt_take)
  have sub: "set rows \<subseteq> set ?sel"
    unfolding rows using set_take_subset [of 1000 "sort_key (\<lambda>r. - t_created_at r) ?sel"] by simp
  show "list_all (holds like r) conds" if "r \<in> set rows" using that sub by auto
  show "r \<in> set (base_select (db srv))" if "r \<in> set rows" using that sub by auto
qed

lemma apply_role_based_filtering_length:
  "length (apply_role_based_filtering ts role uid) \<le> length ts"
  by (simp add: apply_role_based_filtering_def)

lemma apply_role_based_filtering_sorted:
  assumes "sorted_wrt (\<lambda>a b. t_created_at b \<le> t_created_at a) ts"
  shows "sorted_wrt (\<lambda>a b. t_created_at b \<le> t_created_at a) (apply_role_based_filtering ts role uid)"
proof -
  have "sorted_wrt (\<lambda>a b. t_created_at b \<le> t_created_at a) (map hide_internal_notes ts)"
    using assms by (simp add: sorted_wrt_map hide_internal_notes_fields)
  moreover have "sorted_wrt (\<lambda>a b. t_created_at b \<le> t_created_at a) (filter (\<lambda>t. t_user_id t = uid) ts)"
    using assms by (rule sorted_wrt_filter)
  ultimately show ?thesis using assms by (simp add: apply_role_based_filtering_def)
qed

lemma get_visible_tickets_cases:
  "get_visible_tickets like srv uid role fs = [] \<or>
   (\<exists>rows. uid \<noteq> 0 \<and> role \<in> set visibility_rules \<and> db_available srv \<and>
      execute_ticket_query like srv
        (build_base_query uid role # (case fs of None \<Rightarrow> [] | Some f \<Rightarrow> build_filter_clause f)) = Inr rows
      \<and> get_visible_tickets like srv uid role fs = apply_role_based_filtering rows role uid)"
  by (cases fs) (auto simp: get_visible_tickets_def get_visible_tickets_try_def Let_def
      execute_ticket_query_def split: sum.splits)

text \<open>
  C10: whatever the user, role and filters, \<open>get_visible_tickets\<close> returns at most 1000
  tickets, newest first (the \<open>created_at\<close> values never increase along the list).
\<close>

theorem get_visible_tickets_limit_order:
  "length (get_visible_tickets like srv user_id user_role fs) \<le> 1000
   \<and> sorted_wrt (\<lambda>a b. t_created_at b \<le> t_created_at a)
        (get_visible_tickets like srv user_id user_role fs)"
proof -
  from get_visible_tickets_cases [of like srv user_id user_role fs]
  show ?thesis
  proof
    assume "get_visible_tickets like srv user_id user_role fs = []"
    then show ?thesis by simp
  next
    assume "\<exists>rows. user_id \<noteq> 0 \<and> user_role \<in> set visibility_rules \<and> db_available srv \<and>
      execute_ticket_query like srv
        (build_base_query user_id user_role # (case fs of None \<Rightarrow> [] | Some f \<Rightarrow> build_filter_clause f)) = Inr rows
      \<and> get_visible_tickets like srv user_id user_role fs = apply_role_based_filtering rows user_role user_id"
    then obtain rows where
      ex: "execute_ticket_query like srv
        (build_base_query user_id user_role # (case fs of None \<Rightarrow> [] | Some f \<Rightarrow> build_filter_clause f)) = Inr rows"
      and res: "get_visible_tickets like srv user_id user_role fs = apply_role_based_filtering rows user_role user_id"
      by blast
    have "length (apply_role_based_filtering rows user_role user_id) \<le> 1000"
      using apply_role_based_filtering_length [of rows user_role user_id]
        execute_ticket_query_rows(1) [OF ex] by linarith
    moreover have "sorted_wrt (\<lambda>a b. t_created_at b \<le> t_created_at a)
        (apply_role_based_filtering rows user_role user_id)"
      by (rule apply_role_based_filtering_sorted) (rule execute_ticket_query_rows(2) [OF ex])
    ultimately show ?thesis by (simp add: res)
  qed
qed

text \<open>
  C1: for a client every returned ticket belongs to the requesting user; for a developer
  or project manager every returned ticket is \<open>OPEN\<close> or \<open>IN_PROGRESS\<close>; for an admin
  (with a user id and a reachable database) the result is every joined ticket row that
  passes the caller's own filters, up to the limit: no ownership or status condition is
  added.
\<close>

theorem get_visible_tickets_role_restriction:
  "(user_role = ''client'' \<longrightarrow>
      (\<forall>t\<in>set (get_visible_tickets like srv user_id user_role fs). t_user_id t = user_id))
   \<and> (user_role = ''developer'' \<or> user_role = ''project_manager'' \<longrightarrow>
      (\<forall>t\<in>set (get_visible_tickets like srv user_id user_role fs).
         t_status t = OPEN \<or> t_status t = IN_PROGRESS))
   \<and> (user_role = ''admin'' \<and> user_id \<noteq> 0 \<and> db_available srv \<longrightarrow>
      get_visible_tickets like srv user_id user_role fs =
        take 1000 (sort_key (\<lambda>r. - t_created_at r)
          (filter (\<lambda>r. list_all (holds like r)
                     (case fs of None \<Rightarrow> [] | Some f \<Rightarrow> build_filter_clause f))
             (base_select (db srv)))))"
proof (intro conjI impI ballI)
  fix t
  assume "user_role = ''client''"
    and "t \<in> set (get_visible_tickets like srv user_id user_role fs)"
  with get_visible_tickets_cases [of like srv user_id user_role fs]
  show "t_user_id t = user_id"
    by (auto simp: apply_role_based_filtering_def)
next
  fix t
  assume role: "user_role = ''developer'' \<or> user_role = ''project_manager''"
    and t: "t \<in> set (get_visible_tickets like srv user_id user_role fs)"
  with get_visible_tickets_cases [of like srv user_id user_role fs]
  obtain rows where
      ex: "execute_ticket_query like srv
        (build_base_query user_id user_role # (case fs of None \<Rightarrow> [] | Some f \<Rightarrow> build_filter_clause f)) = Inr rows"
      and res: "get_visible_tickets like srv user_id user_role fs = apply_role_based_filtering rows user_role user_id"
    by auto
  from role res have "get_visible_tickets like srv user_id user_role fs = map hide_internal_notes rows"
    by (auto simp: apply_role_based_filtering_def)
  with t obtain r where r: "r \<in> set rows" and tr: "t = hide_internal_notes r" by auto
  from execute_ticket_query_rows(3) [OF ex r] role
  have "t_status r = OPEN \<or> t_status r = IN_PROGRESS"
    by (auto simp: build_base_query_def)
  then show "t_status t = OPEN \<or> t_status t = IN_PROGRESS"
    by (simp add: tr hide_internal_notes_fields)
next
  assume "user_role = ''admin'' \<and> user_id \<noteq> 0 \<and> db_available srv"
  then show "get_visible_tickets like srv user_id user_role fs =
        take 1000 (sort_key (\<lambda>r. - t_created_at r)
          (filter (\<lambda>r. list_all (holds like r)
                     (case fs of None \<Rightarrow> [] | Some f \<Rightarrow> build_filter_clause f))
             (base_select (db srv))))"
    by (cases fs) (simp_all add: get_visible_tickets_def get_visible_tickets_try_def
        visibility_rules_def build_base_query_def execute_ticket_query_def
        apply_role_based_filtering_def)
qed

lemma hide_internal_notes_notes:
  "t_assignment_notes (hide_internal_notes t) =
     (case t_assignment_notes t of
        None \<Rightarrow> None
      | Some n \<Rightarrow> if substring_of ''INTERNAL:'' n
                  then Some ''[Internal notes hidden]'' else Some n)"
proof (cases "t_assignment_notes t")
  case None
  then show ?thesis by (simp add: hide_internal_notes_def)
next
  case (Some n)
  have "py_in ''INTERNAL:'' n \<Longrightarrow> n \<noteq> []" by auto
  then have "(n \<noteq> [] \<and> py_in ''INTERNAL:'' n) = substring_of ''INTERNAL:'' n"
    unfolding py_in_iff [symmetric] by blast
  with Some show ?thesis by (simp add: hide_internal_notes_def)
qed

lemma hide_internal_notes_restore:
  "(hide_internal_notes t)\<lparr>t_assignment_notes := t_assignment_notes t\<rparr> = t"
  by (simp add: hide_internal_notes_fields)

lemma apply_role_based_filtering_frame:
  assumes "r \<in> set (apply_role_based_filtering tickets user_role user_id)"
  shows "\<exists>t\<in>set tickets. r\<lparr>t_assignment_notes := t_assignment_notes t\<rparr> = t"
proof -
  from assms have "r \<in> set tickets \<or> r \<in> hide_internal_notes ` set tickets"
    by (auto simp: apply_role_based_filtering_def split: if_splits)
  then show ?thesis
  proof
    assume "r \<in> set tickets"
    then have "r \<in> set tickets \<and> r\<lparr>t_assignment_notes := t_assignment_notes r\<rparr> = r" by simp
    then show ?thesis by blast
  next
    assume "r \<in> hide_internal_notes ` set tickets"
    then obtain t where "t \<in> set tickets" "r = hide_internal_notes t" by blast
    then have "t \<in> set tickets \<and> r\<lparr>t_assignment_notes := t_assignment_notes t\<rparr> = t"
      by (simp add: hide_internal_notes_restore)
    then show ?thesis by blast
  qed
qed

text \<open>
  C2: for a developer or project manager the filtering keeps every fetched ticket, in
  order, and replaces exactly the assignment notes that contain \<open>INTERNAL:\<close> by
  \<open>[Internal notes hidden]\<close>, so no returned ticket (of the filtering, and of
  \<open>get_visible_tickets\<close>) carries the marker; for an admin the fetched list is returned
  as it is; and for every role each returned ticket agrees with a fetched ticket on every
  field other than \<open>assignment_notes\<close>.
\<close>

theorem internal_notes_hidden:
  "(user_role = ''developer'' \<or> user_role = ''project_manager'' \<longrightarrow>
      length (apply_role_based_filtering tickets user_role user_id) = length tickets
      \<and> (\<forall>t\<in>set (apply_role_based_filtering tickets user_role user_id).
            \<forall>n. t_assignment_notes t = Some n \<longrightarrow> \<not> substring_of ''INTERNAL:'' n)
      \<and> (\<forall>i<length tickets.
            t_assignment_notes (apply_role_based_filtering tickets user_role user_id ! i) =
              (case t_assignment_notes (tickets ! i) of
                 None \<Rightarrow> None
               | Some n \<Rightarrow> if substring_of ''INTERNAL:'' n
                           then Some ''[Internal notes hidden]'' else Some n))
      \<and> (\<forall>t\<in>set (get_visible_tickets like srv user_id user_role fs).
            \<forall>n. t_assignment_notes t = Some n \<longrightarrow> \<not> substring_of ''INTERNAL:'' n))
   \<and> (user_role = ''admin'' \<longrightarrow>
        apply_role_based_filtering tickets user_role user_id = tickets)
   \<and> (\<forall>r\<in>set (apply_role_based_filtering tickets user_role user_id).
        \<exists>t\<in>set tickets. r\<lparr>t_assignment_notes := t_assignment_notes t\<rparr> = t)"
proof (intro conjI impI)
  assume role: "user_role = ''developer'' \<or> user_role = ''project_manager''"
  then have eq: "apply_role_based_filtering ts user_role user_id = map hide_internal_notes ts" for ts
    by (auto simp: apply_role_based_filtering_def)
  show "length (apply_role_based_filtering tickets user_role user_id) = length tickets"
    by (simp add: eq)
  show "\<forall>t\<in>set (apply_role_based_filtering tickets user_role user_id).
            \<forall>n. t_assignment_notes t = Some n \<longrightarrow> \<not> substring_of ''INTERNAL:'' n"
    unfolding eq using hide_internal_notes_clean by auto
  show "\<forall>i<length tickets.
            t_assignment_notes (apply_role_based_filtering tickets user_role user_id ! i) =
              (case t_assignment_notes (tickets ! i) of
                 None \<Rightarrow> None
               | Some n \<Rightarrow> if substring_of ''INTERNAL:'' n
                           then Some ''[Internal notes hidden]'' else Some n)"
    unfolding eq by (simp add: hide_internal_notes_notes)
  from get_visible_tickets_cases [of like srv user_id user_role fs]
  have "set (get_visible_tickets like srv user_id user_role fs)
          \<subseteq> range hide_internal_notes"
    unfolding eq by auto
  then show "\<forall>t\<in>set (get_visible_tickets like srv user_id user_role fs).
            \<forall>n. t_assignment_notes t = Some n \<longrightarrow> \<not> substring_of ''INTERNAL:'' n"
    using hide_internal_notes_clean by blast
next
  assume "user_role = ''admin''"
  then show "apply_role_based_filtering tickets user_role user_id = tickets"
    by (simp add: apply_role_based_filtering_def)
next
  show "\<forall>r\<in>set (apply_role_based_filtering tickets user_role user_id).
        \<exists>t\<in>set tickets. r\<lparr>t_assignment_notes := t_assignment_notes t\<rparr> = t"
    using apply_role_based_filtering_frame by blast
qed

text \<open>
  C9: \<open>get_visible_tickets\<close> turns every exception of its body into the empty list; it
  returns the empty list for a role outside the four known ones, for a falsy user id or
  role, and when the database fails. \<open>check_ticket_access\<close> turns every exception of its
  body into \<open>False\<close>, and returns \<open>False\<close> on invalid input, when no ticket has the
  given id, and when the database fails.
\<close>

theorem visibility_engine_never_raises:
  "(\<forall>e. get_visible_tickets_try like srv user_id user_role fs = Inl e \<longrightarrow>
        get_visible_tickets like srv user_id user_role fs = [])
   \<and> (user_role \<notin> set visibility_rules \<longrightarrow>
        get_visible_tickets like srv user_id user_role fs = [])
   \<and> (user_id = 0 \<or> user_role = [] \<longrightarrow>
        get_visible_tickets like srv user_id user_role fs = [])
   \<and> (\<not> db_available srv \<longrightarrow>
        get_visible_tickets like srv user_id user_role fs = [])
   \<and> (\<forall>e. check_ticket_access_try srv user_id ticket_id user_role action = Inl e \<longrightarrow>
        \<not> check_ticket_access srv user_id ticket_id user_role action)
   \<and> (user_id = 0 \<or> ticket_id = 0 \<or> user_role = [] \<or> user_role \<notin> set visibility_rules \<longrightarrow>
        \<not> check_ticket_access srv user_id ticket_id user_role action)
   \<and> ((\<forall>t\<in>set (tickets_tbl (db srv)). t_id t \<noteq> ticket_id) \<longrightarrow>
        \<not> check_ticket_access srv user_id ticket_id user_role action)
   \<and> (\<not> db_available srv \<longrightarrow>
        \<not> check_ticket_access srv user_id ticket_id user_role action)"
proof (intro conjI impI allI)
  fix e assume "get_visible_tickets_try like srv user_id user_role fs = Inl e"
  then show "get_visible_tickets like srv user_id user_role fs = []"
    by (simp add: get_visible_tickets_def)
next
  assume "user_role \<notin> set visibility_rules"
  then show "get_visible_tickets like srv user_id user_role fs = []"
    by (simp add: get_visible_tickets_def get_visible_tickets_try_def)
next
  assume "user_id = 0 \<or> user_role = []"
  then show "get_visible_tickets like srv user_id user_role fs = []"
    by (auto simp: get_visible_tickets_def get_visible_tickets_try_def)
next
  assume "\<not> db_available srv"
  then show "get_visible_tickets like srv user_id user_role fs = []"
    by (simp add: get_visible_tickets_def get_visible_tickets_try_def execute_ticket_query_def)
next
  fix e assume "check_ticket_access_try srv user_id ticket_id user_role action = Inl e"
  then show "\<not> check_ticket_access srv user_id ticket_id user_role action"
    by (simp add: check_ticket_access_def)
next
  assume "user_id = 0 \<or> ticket_id = 0 \<or> user_role = [] \<or> user_role \<notin> set visibility_rules"
  then show "\<not> check_ticket_access srv user_id ticket_id user_role action"
    by (auto simp: check_ticket_access_def check_ticket_access_try_def)
next
  assume "\<forall>t\<in>set (tickets_tbl (db srv)). t_id t \<noteq> ticket_id"
  then have "filter (\<lambda>t. t_id t = ticket_id) (tickets_tbl (db srv)) = []"
    by (simp add: filter_empty_conv)
  then show "\<not> check_ticket_access srv user_id ticket_id user_role action"
    by (simp add: check_ticket_access_def check_ticket_access_try_def)
next
  assume "\<not> db_available srv"
  then show "\<not> check_ticket_access srv user_id ticket_id user_role action"
    by (simp add: check_ticket_access_def check_ticket_access_try_def)
qed


subsection \<open>The engine on the example data\<close>

lemmas example_defs = example_server_def example_db_def example_users_def example_tickets_def
  failing_server_def
lemmas engine_defs = get_visible_tickets_def get_visible_tickets_try_def visibility_rules_def
  build_base_query_def execute_ticket_query_def apply_role_based_filtering_def
  base_select_def left_join_user_def joined_row_def hide_internal_notes_def

theorem get_visible_tickets_role_restriction_witness:
  "map t_id (get_visible_tickets like_contains example_server 3 ''client'' None) = [3, 1]
   \<and> map t_user_id (get_visible_tickets like_contains example_server 3 ''client'' None) = [3, 3]
   \<and> map t_status (get_visible_tickets like_contains example_server 2 ''developer'' None)
       = [IN_PROGRESS, OPEN]
   \<and> map t_id (get_visible_tickets like_contains example_server 1 ''admin'' None) = [2, 3, 1]
   \<and> list_all (\<lambda>t. t_user_id t = 3)
       (get_visible_tickets like_contains example_server 3 ''client'' None)
   \<and> list_all (\<lambda>t. t_status t = OPEN \<or> t_status t = IN_PROGRESS)
       (get_visible_tickets like_contains example_server 2 ''developer'' None)"
proof -
  have a: "map t_id (get_visible_tickets like_contains example_server 3 ''client'' None) = [3, 1]"
    by (simp add: example_defs engine_defs)
  have a': "map t_user_id (get_visible_tickets like_contains example_server 3 ''client'' None) = [3, 3]"
    by (simp add: example_defs engine_defs)
  have b: "map t_status (get_visible_tickets like_contains example_server 2 ''developer'' None)
       = [IN_PROGRESS, OPEN]"
    by (simp add: example_defs engine_defs)
  have c: "map t_id (get_visible_tickets like_contains example_server 1 ''admin'' None) = [2, 3, 1]"
    by (simp add: example_defs engine_defs)
  from get_visible_tickets_role_restriction [of "''client''" like_contains example_server 3 None]
  have d: "list_all (\<lambda>t. t_user_id t = 3)
       (get_visible_tickets like_contains example_server 3 ''client'' None)"
    by (simp add: list_all_iff)
  from get_visible_tickets_role_restriction [of "''developer''" like_contains example_server 2 None]
  have e: "list_all (\<lambda>t. t_status t = OPEN \<or> t_status t = IN_PROGRESS)
       (get_visible_tickets like_contains example_server 2 ''developer'' None)"
    by (simp add: list_all_iff)
  from a a' b c d e show ?thesis by blast
qed

theorem get_visible_tickets_limit_order_witness:
  "map t_created_at (get_visible_tickets like_contains example_server 1 ''admin'' None)
     = [300, 200, 100]
   \<and> length (get_visible_tickets like_contains example_server 1 ''admin'' None) \<le> 1000
   \<and> sorted_wrt (\<lambda>a b. t_created_at b \<le> t_created_at a)
        (get_visible_tickets like_contains example_server 1 ''admin'' None)"
proof -
  have a: "map t_created_at (get_visible_tickets like_contains example_server 1 ''admin'' None)
     = [300, 200, 100]"
    by (simp add: example_defs engine_defs)
  from get_visible_tickets_limit_order [of like_contains example_server 1 "''admin''" None] a
  show ?thesis by blast
qed

theorem internal_notes_hidden_witness:
  "map t_assignment_notes (get_visible_tickets like_contains example_server 2 ''developer'' None)
     = [Some ''[Internal notes hidden]'', None]
   \<and> map t_assignment_notes (get_visible_tickets like_contains example_server 1 ''admin'' None)
     = [Some ''INTERNAL: escalate'', Some ''see log'', None]
   \<and> list_all (\<lambda>t. \<forall>n. t_assignment_notes t = Some n \<longrightarrow> \<not> substring_of ''INTERNAL:'' n)
       (get_visible_tickets like_contains example_server 2 ''developer'' None)
   \<and> apply_role_based_filtering (base_select example_db) ''admin'' 1 = base_select example_db"
proof -
  have a: "map t_assignment_notes (get_visible_tickets like_contains example_server 2 ''developer'' None)
     = [Some ''[Internal notes hidden]'', None]"
    by (simp add: example_defs engine_defs)
  have b: "map t_assignment_notes (get_visible_tickets like_contains example_server 1 ''admin'' None)
     = [Some ''INTERNAL: escalate'', Some ''see log'', None]"
    by (simp add: example_defs engine_defs)
  note inh = internal_notes_hidden
  from inh [of "''developer''" "[]" 2 like_contains example_server None]
  have c: "list_all (\<lambda>t. \<forall>n. t_assignment_notes t = Some n \<longrightarrow> \<not> substring_of ''INTERNAL:'' n)
       (get_visible_tickets like_contains example_server 2 ''developer'' None)"
    by (simp add: list_all_iff)
  from inh [of "''admin''" "base_select example_db" 1 like_contains example_server None]
  have d: "apply_role_based_filtering (base_select example_db) ''admin'' 1 = base_select example_db"
    by simp
  from a b c d show ?thesis by blast
qed

theorem visibility_engine_never_raises_witness:
  "get_visible_tickets like_contains example_server 3 ''guest'' None = []
   \<and> get_visible_tickets like_contains example_server 0 ''admin'' None = []
   \<and> get_visible_tickets like_contains failing_server 1 ''admin'' None = []
   \<and> get_visible_tickets_try like_contains failing_server 1 ''admin'' None = Inl DatabaseError
   \<and> get_visible_tickets_try like_contains example_server 0 ''admin'' None = Inl ValueError
   \<and> \<not> check_ticket_access example_server 3 0 ''client'' ''view''
   \<and> \<not> check_ticket_access example_server 3 9 ''client'' ''view''
   \<and> \<not> check_ticket_access failing_server 3 1 ''client'' ''view''
   \<and> check_ticket_access example_server 3 1 ''client'' ''view''"
proof -
  have g: "''guest'' \<notin> set visibility_rules" by (simp add: visibility_rules_def)
  have d: "\<not> db_available failing_server" by (simp add: failing_server_def)
  have m: "\<forall>t\<in>set (tickets_tbl (db example_server)). t_id t \<noteq> 9"
    by (simp add: example_defs)
  have t1: "get_visible_tickets_try like_contains failing_server 1 ''admin'' None = Inl DatabaseError"
    by (simp add: example_defs engine_defs)
  have t2: "get_visible_tickets_try like_contains example_server 0 ''admin'' None = Inl ValueError"
    by (simp add: example_defs engine_defs)
  have ok: "check_ticket_access example_server 3 1 ''client'' ''view''"
    by (simp add: example_defs check_ticket_access_def check_ticket_access_try_def
        visibility_rules_def check_role_based_access_def)
  from visibility_engine_never_raises [of like_contains example_server 3 "''guest''" None 0 "''view''"] g
  have a: "get_visible_tickets like_contains example_server 3 ''guest'' None = []" by blast
  from visibility_engine_never_raises [of like_contains example_server 0 "''admin''" None 0 "''view''"]
  have b: "get_visible_tickets like_contains example_server 0 ''admin'' None = []" by blast
  from visibility_engine_never_raises [of like_contains failing_server 1 "''admin''" None 1 "''view''"] d
  have c: "get_visible_tickets like_contains failing_server 1 ''admin'' None = []" by blast
  from visibility_engine_never_raises [of like_contains example_server 3 "''client''" None 0 "''view''"]
  have e: "\<not> check_ticket_access example_server 3 0 ''client'' ''view''" by blast
  from visibility_engine_never_raises [of like_contains example_server 3 "''client''" None 9 "''view''"] m
  have f: "\<not> check_ticket_access example_server 3 9 ''client'' ''view''" by blast
  from visibility_engine_never_raises [of like_contains failing_server 3 "''client''" None 1 "''view''"] d
  have h: "\<not> check_ticket_access failing_server 3 1 ''client'' ''view''" by blast
  from a b c t1 t2 e f h ok show ?thesis by blast
qed


section \<open>Login\<close>

lemma filter_Cons_first:
  assumes "filter P xs = y # ys"
  shows "y \<in> set xs \<and> P y"
proof -
  have "y \<in> set (filter P xs)" by (simp add: assms)
  then show ?thesis by simp
qed

text \<open>
  C5, as the specification words it, fails when the query of \<open>authenticate_user\<close> raises: the
  supplied username and password match a row of the users table, yet no token is issued,
  and the endpoint answers 503, not 401.
\<close>

theorem login_database_error_counterexample:
  "list_ex (\<lambda>u. u_username u = ''root'' \<and> u_password u = ''admin123'')
     (users_tbl (db failing_server))
   \<and> login (=) ''supersecretkey'' 1000 failing_server ''root'' ''admin123''
       = Inl (HTTPException 503)"
  by (simp add: login_def authenticate_user_def failing_server_def example_db_def
      example_users_def)

text \<open>
  C5 (amended): when the query completes, \<open>/login\<close> returns a response exactly when some
  row of the users table has the supplied username and the supplied password, compared
  as stored; the token of the response is signed with the secret and its payload carries
  the id and role of such a row; when no row matches, the endpoint raises HTTP 401 and
  there is no token. When the query raises, the endpoint raises HTTP 503 and there is no
  token.
\<close>

theorem login_authenticates:
  "(db_available srv \<longrightarrow>
      ((\<exists>resp. login eq jwt_secret now srv username password = Inr resp) \<longleftrightarrow>
         (\<exists>u\<in>set (users_tbl (db srv)). eq (u_username u) username \<and> eq (u_password u) password))
      \<and> (\<forall>resp. login eq jwt_secret now srv username password = Inr resp \<longrightarrow>
            (\<exists>u\<in>set (users_tbl (db srv)).
               eq (u_username u) username \<and> eq (u_password u) password
               \<and> jwt_id (jwt_claims (resp_token resp)) = u_id u
               \<and> jwt_role (jwt_claims (resp_token resp)) = u_role u)
            \<and> jwt_signed_with (resp_token resp) = jwt_secret)
      \<and> ((\<forall>u\<in>set (users_tbl (db srv)). \<not> (eq (u_username u) username \<and> eq (u_password u) password))
            \<longrightarrow> login eq jwt_secret now srv username password = Inl (HTTPException 401)))
   \<and> (\<not> db_available srv \<longrightarrow>
        login eq jwt_secret now srv username password = Inl (HTTPException 503))"
proof (intro conjI impI)
  let ?P = "\<lambda>u. eq (u_username u) username \<and> eq (u_password u) password"
  let ?m = "filter ?P (users_tbl (db srv))"
  assume up: "db_available srv"
  have none: "login eq jwt_secret now srv username password = Inl (HTTPException 401)"
    if "?m = []"
    using that up by (simp add: login_def authenticate_user_def)
  have some: "login eq jwt_secret now srv username password =
      Inr \<lparr>resp_token = jwt_encode \<lparr>jwt_id = u_id u, jwt_role = u_role u, jwt_iat = now\<rparr>
                          jwt_secret JWT_ALGO,
           resp_role = u_role u, resp_username = username\<rparr>"
    if "?m = u # us" for u us
    using that up by (simp add: login_def authenticate_user_def)
  show "(\<exists>resp. login eq jwt_secret now srv username password = Inr resp) \<longleftrightarrow>
         (\<exists>u\<in>set (users_tbl (db srv)). ?P u)"
  proof (cases ?m)
    case Nil
    then have "\<not> (\<exists>u\<in>set (users_tbl (db srv)). ?P u)" by (simp add: filter_empty_conv)
    with none [OF Nil] show ?thesis by simp
  next
    case (Cons u us)
    from filter_Cons_first [OF Cons] some [OF Cons] show ?thesis by blast
  qed
  show "\<forall>resp. login eq jwt_secret now srv username password = Inr resp \<longrightarrow>
            (\<exists>u\<in>set (users_tbl (db srv)).
               eq (u_username u) username \<and> eq (u_password u) password
               \<and> jwt_id (jwt_claims (resp_token resp)) = u_id u
               \<and> jwt_role (jwt_claims (resp_token resp)) = u_role u)
            \<and> jwt_signed_with (resp_token resp) = jwt_secret"
  proof (cases ?m)
    case Nil
    with none show ?thesis by simp
  next
    case (Cons u us)
    from filter_Cons_first [OF Cons] some [OF Cons] show ?thesis
      by (auto simp: jwt_encode_def)
  qed
  show "login eq jwt_secret now srv username password = Inl (HTTPException 401)"
    if "\<forall>u\<in>set (users_tbl (db srv)). \<not> ?P u"
  proof -
    from that have "?m = []" by (simp add: filter_empty_conv)
    then show ?thesis by (rule none)
  qed
next
  assume "\<not> db_available srv"
  then show "login eq jwt_secret now srv username password = Inl (HTTPException 503)"
    by (simp add: login_def authenticate_user_def)
qed

theorem login_authenticates_witness:
  "login (=) ''supersecretkey'' 1000 example_server ''root'' ''admin123'' =
     Inr \<lparr>resp_token = \<lparr>jwt_claims = \<lparr>jwt_id = 1, jwt_role = ''admin'', jwt_iat = 1000\<rparr>,
                        jwt_signed_with = ''supersecretkey'', jwt_algorithm = ''HS256''\<rparr>,
          resp_role = ''admin'', resp_username = ''root''\<rparr>
   \<and> login (=) ''supersecretkey'' 1000 example_server ''root'' ''admin'' = Inl (HTTPException 401)
   \<and> login (=) ''supersecretkey'' 1000 failing_server ''root'' ''admin123''
       = Inl (HTTPException 503)"
proof -
  have a: "login (=) ''supersecretkey'' 1000 example_server ''root'' ''admin123'' =
     Inr \<lparr>resp_token = \<lparr>jwt_claims = \<lparr>jwt_id = 1, jwt_role = ''admin'', jwt_iat = 1000\<rparr>,
                        jwt_signed_with = ''supersecretkey'', jwt_algorithm = ''HS256''\<rparr>,
          resp_role = ''admin'', resp_username = ''root''\<rparr>"
    by (simp add: login_def authenticate_user_def example_server_def example_db_def
        example_users_def jwt_encode_def JWT_ALGO_def)
  have up: "db_available example_server" by (simp add: example_server_def)
  have no: "\<forall>u\<in>set (users_tbl (db example_server)).
              \<not> (u_username u = ''root'' \<and> u_password u = ''admin'')"
    by (simp add: example_server_def example_db_def example_users_def)
  from login_authenticates [of example_server "(=)" "''supersecretkey''" 1000 "''root''" "''admin''"]
    up no
  have b: "login (=) ''supersecretkey'' 1000 example_server ''root'' ''admin'' = Inl (HTTPException 401)"
    by blast
  have down: "\<not> db_available failing_server" by (simp add: failing_server_def)
  from login_authenticates [of failing_server "(=)" "''supersecretkey''" 1000 "''root''" "''admin123''"]
    down
  have c: "login (=) ''supersecretkey'' 1000 failing_server ''root'' ''admin123''
       = Inl (HTTPException 503)"
    by blast
  from a b c show ?thesis by blast
qed

section \<open>Notifications and the pass and cancel endpoints\<close>

lemmas example_db_defs = example_db_def example_users_def example_tickets_def
  example_assignments_def example_developer_def example_admin_def example_client_def
  users_only_db_def
lemmas endpoint_defs = role_required_def my_active_assignments_def active_assignments_def
  getitem_def sql_str_def update_ticket_def insert_notifications_def insert_assignment_def
  deactivate_assignments_def next_id_def Let_def

lemma notify_admin_silent:
  "post = Inl RequestException \<or> post = Inr () \<or> bot_token = None \<or> chat_id = None
     \<Longrightarrow> notify_admin bot_token chat_id post message = Inr ()"
  by (auto simp: notify_admin_def)

text \<open>
  C8: with the email call set to raise, the developer of the example data passes, or
  cancels, the ticket assigned to him. Both endpoints run their \<open>UPDATE\<close>s (the ticket is
  \<open>OPEN\<close> again, or \<open>CLOSED\<close>) and then leave with \<open>KeyError\<close>, from \<open>row[0]\<close> and
  \<open>ticket_info[1]\<close> on dictionary rows, before the guarded email call is reached: the
  caller gets an error, not the success response.
\<close>

theorem pass_cancel_raise_keyerror:
  "fst (pass_ticket 400 (Inl EmailError) example_db example_developer 2 ''busy'') = Inl KeyError
   \<and> map t_status (tickets_tbl
        (snd (pass_ticket 400 (Inl EmailError) example_db example_developer 2 ''busy'')))
       = [OPEN, OPEN, CLOSED]
   \<and> fst (cancel_ticket 400 (Inl EmailError) example_db example_developer 2 ''duplicate'')
       = Inl KeyError
   \<and> map t_status (tickets_tbl
        (snd (cancel_ticket 400 (Inl EmailError) example_db example_developer 2 ''duplicate'')))
       = [OPEN, CLOSED, CLOSED]"
  by (simp add: pass_ticket_def cancel_ticket_def example_db_defs endpoint_defs)


section \<open>At most one active assignment\<close>






lemma active_after_insert_notifications:
  "active_assignments (insert_notifications ns d) x = active_assignments d x"
  by (simp add: active_assignments_def insert_notifications_def)




lemma role_required_cases:
  "role_required roles user d body = body \<or> role_required roles user d body = (Inl (HTTPException 403), d)"
  by (simp add: role_required_def)













section \<open>Status transitions\<close>














end
